theory Spec2Isabelle
  imports Complex_Main "HOL-Library.Sublist"
begin

section \<open>The training script \<open>run_schnetpack.py\<close>\<close>

text \<open>
  The script wires a property map (property name to target column, or no target) into
  data loading, statistics, loss assembly and training. The model below follows the
  script function by function.

  Conventions of the embedding:
  \<^item> the property map is a Python dict that is iterated, so it is an association list in
    insertion order; a dict has pairwise distinct keys, which theorems that depend on it
    assume as \<open>distinct (map fst property_map)\<close>;
  \<^item> every other dict is only looked up, and is a map \<open>'k \<rightharpoonup> 'v\<close>;
  \<^item> Python numbers are real numbers; the one float operation whose rounding can change
    a result by a whole unit, the product that \<open>prepare_data\<close> turns into an integer,
    is a parameter instead of the exact product;
  \<^item> tensors, data sets, loaders and the other objects of the libraries the script calls
    are values of type variables, and the library functions are parameters;
  \<^item> an exception is a value of type \<open>error\<close>.
\<close>

subsection \<open>Errors and dict access\<close>

datatype error = ValueError | KeyError | TypeError | OSError

text \<open>\<open>d[k]\<close> raises \<open>KeyError\<close> when the key is missing.\<close>

definition getitem :: "('k \<rightharpoonup> 'v) \<Rightarrow> 'k \<Rightarrow> error + 'v" where
  "getitem d k = (case d k of None \<Rightarrow> Inl KeyError | Some v \<Rightarrow> Inr v)"

text \<open>\<open>[d[k] for k in ks]\<close>: the first missing key raises.\<close>

fun getitems :: "('k \<rightharpoonup> 'v) \<Rightarrow> 'k list \<Rightarrow> error + 'v list" where
  "getitems d [] = Inr []"
| "getitems d (k # ks) =
     (case getitem d k of
        Inl e \<Rightarrow> Inl e
      | Inr v \<Rightarrow> (case getitems d ks of Inl e \<Rightarrow> Inl e | Inr vs \<Rightarrow> Inr (v # vs)))"

subsection \<open>Property names\<close>

text \<open>
  Modelled from the spec: the constants \<open>Properties.energy\<close>,
  \<open>Properties.polarizability\<close> and \<open>Properties.dipole_moment\<close> of
  \<open>schnetpack.property_model\<close>, which is not among the sources. The spec names the
  properties "energy", "polarizability" and "dipole_moment".
\<close>

definition Properties_energy :: string where
  "Properties_energy = ''energy''"

definition Properties_polarizability :: string where
  "Properties_polarizability = ''polarizability''"

definition Properties_dipole_moment :: string where
  "Properties_dipole_moment = ''dipole_moment''"

type_synonym property_map = "(string \<times> string option) list"

definition is_extensive :: "string \<Rightarrow> bool" where
  "is_extensive prop = (prop = Properties_energy)"

subsection \<open>\<open>build_loss\<close>\<close>

text \<open>
  The tensor operations of \<open>torch\<close> that the loss uses: \<open>a - b\<close>, \<open>a ** n\<close> and
  \<open>torch.mean\<close>. The mean is a scalar, which the model reads as a real number.
\<close>

record 't torch =
  tsub :: "'t \<Rightarrow> 't \<Rightarrow> 't"
  tpow :: "'t \<Rightarrow> nat \<Rightarrow> 't"
  tmean :: "'t \<Rightarrow> real"

text \<open>
  The body of \<open>loss_fn\<close>: the loop over \<open>property_map.items()\<close>, with the running
  \<open>loss\<close> as an argument. \<open>batch[tgt]\<close> and \<open>result[p]\<close> raise \<open>KeyError\<close> on a
  missing key.
\<close>

fun loss_loop ::
  "'t torch \<Rightarrow> (string \<rightharpoonup> real) \<Rightarrow> (string \<rightharpoonup> 't) \<Rightarrow> (string \<rightharpoonup> 't) \<Rightarrow>
   property_map \<Rightarrow> real \<Rightarrow> error + real" where
  "loss_loop T loss_tradeoff batch result [] loss = Inr loss"
| "loss_loop T loss_tradeoff batch result ((p, tgt) # items) loss =
     (case tgt of
        None \<Rightarrow> loss_loop T loss_tradeoff batch result items loss
      | Some t \<Rightarrow>
          (case getitem batch t of
             Inl e \<Rightarrow> Inl e
           | Inr bt \<Rightarrow>
               (case getitem result p of
                  Inl e \<Rightarrow> Inl e
                | Inr rp \<Rightarrow>
                    (let diff = tsub T bt rp;
                         diff = tpow T diff 2;
                         err_sq = tmean T diff;
                         err_sq = (case loss_tradeoff p of
                                     Some w \<Rightarrow> err_sq * w
                                   | None \<Rightarrow> err_sq)
                     in loss_loop T loss_tradeoff batch result items (loss + err_sq)))))"

text \<open>\<open>build_loss\<close> returns the closure \<open>loss_fn\<close>, which starts the loop at \<open>0.\<close>.\<close>

definition build_loss ::
  "'t torch \<Rightarrow> property_map \<Rightarrow> (string \<rightharpoonup> real) \<Rightarrow>
   (string \<rightharpoonup> 't) \<Rightarrow> (string \<rightharpoonup> 't) \<Rightarrow> error + real" where
  "build_loss T property_map loss_tradeoff =
     (\<lambda>batch result. loss_loop T loss_tradeoff batch result property_map 0)"

text \<open>
  The words of the specification: the mean squared error between a target tensor and a
  predicted tensor, and the tradeoff weight of a property (1 when the table has none).
\<close>

definition mean_squared_error :: "'t torch \<Rightarrow> 't \<Rightarrow> 't \<Rightarrow> real" where
  "mean_squared_error T target predicted = tmean T (tpow T (tsub T target predicted) 2)"

definition tradeoff_weight :: "(string \<rightharpoonup> real) \<Rightarrow> string \<Rightarrow> real" where
  "tradeoff_weight loss_tradeoff p = (case loss_tradeoff p of Some w \<Rightarrow> w | None \<Rightarrow> 1)"

text \<open>The properties of a property map that have a target, with their targets.\<close>

definition with_target :: "property_map \<Rightarrow> (string \<times> string) set" where
  "with_target property_map = {(p, t). (p, Some t) \<in> set property_map}"

text \<open>A concrete tensor library for the examples: a tensor is a list of numbers.\<close>

definition list_torch :: "real list torch" where
  "list_torch =
     \<lparr>tsub = (\<lambda>a b. map (\<lambda>(x, y). x - y) (zip a b)),
      tpow = (\<lambda>a n. map (\<lambda>x. x ^ n) a),
      tmean = (\<lambda>a. sum_list a / real (length a))\<rparr>"

subsection \<open>The file system\<close>

text \<open>
  A path is its list of components, relative to a base directory that always exists; a
  file system maps the paths that exist to a directory or to a file with its content.
  The empty path is the empty string, which names nothing. Path normalisation, symbolic
  links and permissions are not modelled.

  The world is the file system together with the trace of what the script did to it and
  of the lines it logged, in order.
\<close>

type_synonym path = "string list"

datatype 'c node = Dir | File 'c

type_synonym 'c filesystem = "path \<Rightarrow> 'c node option"

datatype 'c event = LogInfo string | Rmtree path | Makedirs path | WriteFile path 'c

record 'c world =
  fs :: "'c filesystem"
  trace :: "'c event list"

definition emit :: "'c event \<Rightarrow> 'c world \<Rightarrow> 'c world" where
  "emit ev w = w\<lparr>trace := trace w @ [ev]\<rparr>"

text \<open>\<open>os.path.exists\<close>.\<close>

definition path_exists :: "'c filesystem \<Rightarrow> path \<Rightarrow> bool" where
  "path_exists f p = (f p \<noteq> None)"

text \<open>
  \<open>shutil.rmtree\<close> deletes a directory with everything below it, and raises an
  \<open>OSError\<close> on a path that is missing or is not a directory.
\<close>

definition rmtree :: "path \<Rightarrow> 'c world \<Rightarrow> error option \<times> 'c world" where
  "rmtree p w =
     (case fs w p of
        Some Dir \<Rightarrow> (None, emit (Rmtree p) (w\<lparr>fs := (\<lambda>q. if prefix p q then None else fs w q)\<rparr>))
      | Some (File c) \<Rightarrow> (Some OSError, w)
      | None \<Rightarrow> (Some OSError, w))"

text \<open>
  \<open>os.mkdir\<close> needs a name that does not exist yet inside a directory that does;
  \<open>os.makedirs\<close> first creates the missing ancestors, innermost last.
\<close>

definition mkdir :: "'c filesystem \<Rightarrow> path \<Rightarrow> error + 'c filesystem" where
  "mkdir f name =
     (if name = [] then Inl OSError
      else if f name \<noteq> None then Inl OSError
      else if butlast name \<noteq> [] \<and> f (butlast name) \<noteq> Some Dir then Inl OSError
      else Inr (f(name \<mapsto> Dir)))"

function makedirs_fs :: "'c filesystem \<Rightarrow> path \<Rightarrow> error + 'c filesystem" where
  "makedirs_fs f name =
     (if butlast name \<noteq> [] \<and> \<not> path_exists f (butlast name) then
        (case makedirs_fs f (butlast name) of
           Inl e \<Rightarrow> Inl e
         | Inr f' \<Rightarrow> mkdir f' name)
      else mkdir f name)"
  by pat_completeness auto
termination
proof (relation "measure (\<lambda>(f, name). length name)")
  show "wf (measure (\<lambda>(f :: 'c filesystem, name :: path). length name))"
    by simp
next
  fix f :: "'c filesystem" and name :: path
  assume "butlast name \<noteq> [] \<and> \<not> path_exists f (butlast name)"
  then have "name \<noteq> []"
    by auto
  then show "((f, butlast name), (f, name)) \<in> measure (\<lambda>(f, name). length name)"
    by simp
qed

declare makedirs_fs.simps [simp del]

definition makedirs :: "path \<Rightarrow> 'c world \<Rightarrow> error option \<times> 'c world" where
  "makedirs p w =
     (case makedirs_fs (fs w) p of
        Inl e \<Rightarrow> (Some e, w)
      | Inr f' \<Rightarrow> (None, emit (Makedirs p) (w\<lparr>fs := f'\<rparr>)))"

subsection \<open>\<open>create_modeldir\<close> and \<open>save_config\<close>\<close>

definition create_modeldir :: "path option \<Rightarrow> bool \<Rightarrow> 'c world \<Rightarrow> error option \<times> 'c world" where
  "create_modeldir modeldir overwrite w0 =
     (let w = emit (LogInfo ''Create model directory'') w0 in
      case modeldir of
        None \<Rightarrow> (Some ValueError, w)
      | Some d \<Rightarrow>
          if path_exists (fs w) d \<and> \<not> overwrite then (Some ValueError, w)
          else
            (case (if path_exists (fs w) d \<and> overwrite then rmtree d w else (None, w)) of
               (Some e, w1) \<Rightarrow> (Some e, w1)
             | (None, w1) \<Rightarrow>
                 if \<not> path_exists (fs w1) d then makedirs d w1 else (None, w1)))"

text \<open>
  \<open>save_config\<close> opens \<open>config.yaml\<close> inside the model directory for writing and dumps
  the configuration into it; \<open>yaml_dump\<close> is the serialiser. Opening fails when the
  directory is missing or the name is a directory, and joining a path to \<open>None\<close> is a
  \<open>TypeError\<close>.
\<close>

definition save_config ::
  "('cfg \<Rightarrow> 'c) \<Rightarrow> 'cfg \<Rightarrow> path option \<Rightarrow> 'c world \<Rightarrow> error option \<times> 'c world" where
  "save_config yaml_dump config modeldir w =
     (case modeldir of
        None \<Rightarrow> (Some TypeError, w)
      | Some d \<Rightarrow>
          (let f = d @ [''config.yaml''] in
           if d \<noteq> [] \<and> fs w d \<noteq> Some Dir then (Some OSError, w)
           else if fs w f = Some Dir then (Some OSError, w)
           else (None, emit (WriteFile f (yaml_dump config))
                         (w\<lparr>fs := (fs w)(f \<mapsto> File (yaml_dump config))\<rparr>))))"

subsection \<open>\<open>prepare_data\<close>\<close>

text \<open>
  A data set as \<open>get_dataset\<close> returns it: its length, \<open>create_splits\<close> and
  \<open>get_atomref\<close>. \<open>np.random.seed(_seed)\<close> seeds the generator that the split draws
  from, so the seed is an argument of \<open>create_splits\<close> here.
\<close>

record ('d, 'r) dataset =
  data_len :: nat
  create_splits :: "nat \<Rightarrow> real \<Rightarrow> real \<Rightarrow> 'd \<times> 'd \<times> 'd"
  get_atomref :: "string \<Rightarrow> 'r"

text \<open>Python's \<open>int\<close> of a number drops the fractional part: it rounds towards zero.\<close>

definition py_int :: "real \<Rightarrow> int" where
  "py_int x = (if 0 \<le> x then \<lfloor>x\<rfloor> else \<lceil>x\<rceil>)"

text \<open>
  The product \<open>num_train * len(data)\<close> of a float and an int is a float: the double that
  is nearest to the exact product, which need not be the exact product (\<open>0.29 * 100\<close> is
  a little less than 29, and \<open>int\<close> of it is 28). This product is the parameter
  \<open>float_mul\<close>, about whose rounding nothing is assumed; \<open>int\<close> is applied to its value.
\<close>

definition prepare_data ::
  "(real \<Rightarrow> nat \<Rightarrow> real) \<Rightarrow>
   (string option list \<Rightarrow> ('d, 'r) dataset) \<Rightarrow> ('d \<Rightarrow> nat \<Rightarrow> bool \<Rightarrow> nat \<Rightarrow> 'l) \<Rightarrow>
   nat \<Rightarrow> property_map \<Rightarrow> nat \<Rightarrow> real \<Rightarrow> real \<Rightarrow> nat \<Rightarrow>
   'l \<times> 'l \<times> 'l \<times> (string \<rightharpoonup> 'r)" where
  "prepare_data float_mul get_dataset AtomsLoader seed property_map batch_size num_train num_val
     num_workers =
     (let data = get_dataset (map snd property_map);
          num_train = (if num_train < 1
                       then real_of_int (py_int (float_mul num_train (data_len data)))
                       else num_train);
          num_val = (if num_val < 1
                     then real_of_int (py_int (float_mul num_val (data_len data)))
                     else num_val);
          (train, val, test) = create_splits data seed num_train num_val;
          train_loader = AtomsLoader train batch_size True num_workers;
          val_loader = AtomsLoader val batch_size False num_workers;
          test_loader = AtomsLoader test batch_size False num_workers;
          atomrefs = map_of [(p, get_atomref data tgt). (p, Some tgt) \<leftarrow> property_map]
      in (train_loader, val_loader, test_loader, atomrefs))"

text \<open>
  The words of the specification for a split size: a value below 1 is a fraction of the
  data set, whose product with the size is rounded down; any other value is an absolute
  count.
\<close>

definition split_size :: "(real \<Rightarrow> nat \<Rightarrow> real) \<Rightarrow> real \<Rightarrow> nat \<Rightarrow> real" where
  "split_size float_mul x n = (if x < 1 then real_of_int \<lfloor>float_mul x n\<rfloor> else x)"

subsection \<open>The configuration\<close>

text \<open>The entries of \<open>cfg\<close>, and \<open>properties\<close>, which \<open>train\<close> reads.\<close>

record 's config =
  loss_tradeoff :: "string \<rightharpoonup> real"
  overwrite :: bool
  additional_outputs :: "string list"
  modeldir :: "path option"
  batch_size :: nat
  num_train :: real
  num_val :: real
  num_workers :: nat
  mean :: "(string \<rightharpoonup> 's) option"
  stddev :: "(string \<rightharpoonup> 's) option"
  device :: string
  mongo_url :: "string option"
  mongo_db :: "string option"
  use_properties :: "string list"
  properties :: "string list"

text \<open>
  The default configuration \<open>cfg\<close>, which has no entry \<open>properties\<close> (read here as
  the empty list), and the named configuration \<open>debug_config\<close> applied to it, with
  \<open>./models/debug\<close> as a path from the working directory.
\<close>

definition cfg :: "'s config" where
  "cfg = \<lparr>loss_tradeoff = Map.empty, overwrite = True, additional_outputs = [],
           modeldir = None, batch_size = 100, num_train = 0.8, num_val = 0.1,
           num_workers = 2, mean = None, stddev = None, device = ''cpu'',
           mongo_url = None, mongo_db = None, use_properties = [], properties = []\<rparr>"

definition debug_config :: "'s config" where
  "debug_config = cfg\<lparr>modeldir := Some [''models'', ''debug''],
                        properties := [''energy'', ''forces'']\<rparr>"

text \<open>The entry of one property in a statistics dict of the configuration, if any.\<close>

definition config_stat :: "(string \<rightharpoonup> 's) option \<Rightarrow> string \<Rightarrow> 's option" where
  "config_stat d p = (case d of None \<Rightarrow> None | Some m \<Rightarrow> m p)"

subsection \<open>\<open>stats\<close>\<close>

text \<open>\<open>dict\<close> of a list of pairs: a later pair replaces an earlier one with its key.\<close>

definition dict :: "('k \<times> 'v) list \<Rightarrow> ('k \<rightharpoonup> 'v)" where
  "dict kvs = fold (\<lambda>(k, v) d. d(k \<mapsto> v)) kvs Map.empty"

text \<open>The four list comprehensions at the head of \<open>stats\<close>.\<close>

definition stats_props :: "property_map \<Rightarrow> string list" where
  "stats_props property_map = [p. (p, tgt) \<leftarrow> property_map, tgt \<noteq> None]"

definition stats_targets :: "property_map \<Rightarrow> error + string option list" where
  "stats_targets property_map =
     getitems (map_of property_map)
       [p \<leftarrow> stats_props property_map.
          p \<notin> set [Properties_polarizability, Properties_dipole_moment]]"

definition stats_atomrefs :: "(string \<rightharpoonup> 'r) \<Rightarrow> property_map \<Rightarrow> error + 'r list" where
  "stats_atomrefs atomrefs property_map =
     getitems atomrefs
       [p \<leftarrow> stats_props property_map.
          p \<notin> set [Properties_polarizability, Properties_dipole_moment]]"

definition stats_extensive :: "property_map \<Rightarrow> bool list" where
  "stats_extensive property_map =
     [is_extensive p. p \<leftarrow> stats_props property_map,
        p \<notin> set [Properties_polarizability, Properties_dipole_moment]]"

text \<open>
  \<open>get_statistics\<close> is the method of the training loader, and \<open>tolist\<close> the conversion
  \<open>m.detach().cpu().numpy().tolist()\<close>. The function returns the pair it returns in
  Python together with the configuration, which it updates in place.
\<close>

definition stats ::
  "(string option list \<Rightarrow> bool list \<Rightarrow> 'r list \<Rightarrow> 'm list \<times> 'm list) \<Rightarrow> ('m \<Rightarrow> 's) \<Rightarrow>
   (string \<rightharpoonup> 'r) \<Rightarrow> property_map \<Rightarrow> 's config \<Rightarrow>
   (error + (string \<rightharpoonup> 's) option \<times> (string \<rightharpoonup> 's) option) \<times> 's config" where
  "stats get_statistics tolist atomrefs property_map config =
     (let props = stats_props property_map in
      case stats_targets property_map of
        Inl e \<Rightarrow> (Inl e, config)
      | Inr targets \<Rightarrow>
          (case stats_atomrefs atomrefs property_map of
             Inl e \<Rightarrow> (Inl e, config)
           | Inr atomrefs \<Rightarrow>
               (let extensive = stats_extensive property_map;
                    config =
                      (if length targets > 0 then
                         (if mean config = None \<or> stddev config = None then
                            (let (m, s) = get_statistics targets extensive atomrefs in
                             config\<lparr>mean := Some (dict (zip props (map tolist m))),
                                    stddev := Some (dict (zip props (map tolist s)))\<rparr>)
                          else config)
                       else config\<lparr>mean := Some Map.empty, stddev := Some Map.empty\<rparr>)
                in (Inr (mean config, stddev config), config))))"

text \<open>
  The properties that take part in statistics, in the words of the specification: those
  with a target, other than polarizability and dipole moment.
\<close>

definition statistics_set :: "property_map \<Rightarrow> string set" where
  "statistics_set property_map =
     fst ` with_target property_map - {Properties_polarizability, Properties_dipole_moment}"

subsection \<open>\<open>train\<close>\<close>

text \<open>
  What \<open>train\<close> takes from the ingredient modules and the libraries: the property map of
  a list of property names, the data set, the loaders with their statistics, the
  serialiser of the configuration, and the seed of the run.
\<close>

record ('d, 'r, 'l, 'm, 's, 'c) ingredients =
  get_property_map :: "string list \<Rightarrow> property_map"
  get_dataset :: "string option list \<Rightarrow> ('d, 'r) dataset"
  AtomsLoader :: "'d \<Rightarrow> nat \<Rightarrow> bool \<Rightarrow> nat \<Rightarrow> 'l"
  get_statistics :: "'l \<Rightarrow> string option list \<Rightarrow> bool list \<Rightarrow> 'r list \<Rightarrow> 'm list \<times> 'm list"
  tolist :: "'m \<Rightarrow> 's"
  yaml_dump :: "'s config \<Rightarrow> 'c"
  seed :: nat
  float_mul :: "real \<Rightarrow> nat \<Rightarrow> real"

text \<open>
  \<open>train\<close> up to the point where it hands over to \<open>build_model\<close>, \<open>setup_trainer\<close>
  and \<open>trainer.train\<close>, which belong to other modules: the result is what those calls
  receive (mean, stddev, atomrefs and the model properties), the configuration and the
  world. An exception ends the run where it is raised.
\<close>

definition train ::
  "('d, 'r, 'l, 'm, 's, 'c) ingredients \<Rightarrow> 's config \<Rightarrow> 'c world \<Rightarrow>
   (error + (string \<rightharpoonup> 's) option \<times> (string \<rightharpoonup> 's) option \<times> (string \<rightharpoonup> 'r) \<times> string list)
   \<times> 's config \<times> 'c world" where
  "train E config w0 =
     (let property_map = get_property_map E (properties config) in
      case create_modeldir (modeldir config) (overwrite config) w0 of
        (Some e, w1) \<Rightarrow> (Inl e, config, w1)
      | (None, w1) \<Rightarrow>
          (case save_config (yaml_dump E) config (modeldir config) w1 of
             (Some e, w2) \<Rightarrow> (Inl e, config, w2)
           | (None, w2) \<Rightarrow>
               (let w3 = emit (LogInfo ''Load data'') w2;
                    (train_loader, val_loader, test_loader, atomrefs) =
                       prepare_data (float_mul E) (get_dataset E) (AtomsLoader E) (seed E)
                         property_map
                         (batch_size config) (num_train config) (num_val config)
                         (num_workers config)
                in case stats (get_statistics E train_loader) (tolist E) atomrefs
                          property_map config of
                     (Inl e, config') \<Rightarrow> (Inl e, config', w3)
                   | (Inr (mean', stddev'), config') \<Rightarrow>
                       (let w4 = emit (LogInfo ''Build model'') w3;
                            model_properties =
                              [p. (p, tgt) \<leftarrow> property_map, tgt \<noteq> None];
                            w5 = emit (LogInfo ''Setup training'') w4;
                            w6 = emit (LogInfo ''Training'') w5
                        in (Inr (mean', stddev', atomrefs, model_properties), config', w6)))))"

text \<open>Whether an event writes a file.\<close>

fun is_write :: "'c event \<Rightarrow> bool" where
  "is_write (WriteFile p c) = True"
| "is_write ev = False"

text \<open>
  An example run: an empty working directory, a property map that names each target
  after its property, a data set of ten entries that is its own loader, statistics that
  are 5 and 7 for every target, and a serialiser that keeps the configuration as it is.
\<close>

definition empty_world :: "'c world" where
  "empty_world = \<lparr>fs = Map.empty, trace = []\<rparr>"

text \<open>A working directory after an earlier run: the model directory holds a file.\<close>

definition trained_world :: "nat world" where
  "trained_world =
     \<lparr>fs = [[''models''] \<mapsto> Dir, [''models'', ''debug''] \<mapsto> Dir,
            [''models'', ''debug'', ''best_model''] \<mapsto> File 1, [''notes''] \<mapsto> File 2],
      trace = []\<rparr>"

definition example_ingredients ::
  "(real, string, real, real, real, real config) ingredients" where
  "example_ingredients =
     \<lparr>get_property_map = (\<lambda>ps. [(p, Some p). p \<leftarrow> ps]),
      get_dataset = (\<lambda>ts. \<lparr>data_len = 10,
                              create_splits = (\<lambda>sd a b. (a, b, 10 - a - b)),
                              get_atomref = (\<lambda>t. t)\<rparr>),
      AtomsLoader = (\<lambda>d b s n. d),
      get_statistics = (\<lambda>l ts ex ar. (map (\<lambda>t. 5) ts, map (\<lambda>t. 7) ts)),
      tolist = (\<lambda>x. x),
      yaml_dump = (\<lambda>c. c),
      seed = 0,
      float_mul = (\<lambda>x n. x * real n)\<rparr>"

section \<open>Properties\<close>

subsection \<open>The loss\<close>

lemma loss_loop_sum_list:
  assumes "\<And>p t. (p, Some t) \<in> set items \<Longrightarrow> batch t = Some (B t) \<and> result p = Some (R p)"
  shows "loss_loop T lt batch result items loss =
         Inr (loss + sum_list (map (\<lambda>(p, t). tradeoff_weight lt p * mean_squared_error T (B t) (R p))
                  (concat (map (\<lambda>(p, tgt). case tgt of None \<Rightarrow> [] | Some t \<Rightarrow> [(p, t)]) items))))"
  using assms
proof (induction items arbitrary: loss)
  case Nil
  show ?case by simp
next
  case (Cons a items)
  obtain p tgt where a: "a = (p, tgt)" by (cases a)
  have rest: "\<And>q t. (q, Some t) \<in> set items \<Longrightarrow> batch t = Some (B t) \<and> result q = Some (R q)"
    using Cons.prems by auto
  show ?case
  proof (cases tgt)
    case None
    then show ?thesis using Cons.IH [OF rest] a by simp
  next
    case (Some t)
    have "batch t = Some (B t)" "result p = Some (R p)"
      using Cons.prems [of p t] a Some by simp_all
    then show ?thesis
      using Cons.IH [OF rest] a Some
      by (simp add: getitem_def tradeoff_weight_def mean_squared_error_def mult.commute
          split: option.split)
  qed
qed

lemma concat_with_target_distinct:
  "distinct (map fst items) \<Longrightarrow>
   distinct (concat (map (\<lambda>(p, tgt). case tgt of None \<Rightarrow> [] | Some t \<Rightarrow> [(p, t)]) items))"
proof (induction items)
  case Nil
  show ?case by simp
next
  case (Cons a items)
  obtain p tgt where a: "a = (p, tgt)" by (cases a)
  have "\<And>t. (p, t) \<notin> set (concat (map (\<lambda>(p, tgt). case tgt of None \<Rightarrow> [] | Some t \<Rightarrow> [(p, t)]) items))"
    using Cons.prems a by (force split: option.splits)
  then show ?case
    using Cons a by (auto split: option.splits)
qed

lemma set_concat_with_target:
  "set (concat (map (\<lambda>(p, tgt). case tgt of None \<Rightarrow> [] | Some t \<Rightarrow> [(p, t)]) items)) = with_target items"
  by (auto simp: with_target_def split: option.splits)

lemma build_loss_sum_set:
  assumes "distinct (map fst property_map)"
    and "\<And>p t. (p, t) \<in> with_target property_map \<Longrightarrow> batch t = Some (B t) \<and> result p = Some (R p)"
  shows "build_loss T property_map lt batch result =
         Inr (\<Sum>(p, t) \<in> with_target property_map.
                tradeoff_weight lt p * mean_squared_error T (B t) (R p))"
proof -
  let ?active = "concat (map (\<lambda>(p, tgt). case tgt of None \<Rightarrow> [] | Some t \<Rightarrow> [(p, t)]) property_map)"
  let ?summand = "\<lambda>(p, t). tradeoff_weight lt p * mean_squared_error T (B t) (R p)"
  have "\<And>p t. (p, Some t) \<in> set property_map \<Longrightarrow> batch t = Some (B t) \<and> result p = Some (R p)"
    using assms(2) by (simp add: with_target_def)
  then have "build_loss T property_map lt batch result = Inr (sum_list (map ?summand ?active))"
    unfolding build_loss_def by (simp add: loss_loop_sum_list)
  also have "sum_list (map ?summand ?active) = sum ?summand (set ?active)"
    by (rule sum_list_distinct_conv_sum_set) (rule concat_with_target_distinct [OF assms(1)])
  finally show ?thesis
    by (simp only: set_concat_with_target)
qed

lemma loss_loop_no_target:
  "with_target items = {} \<Longrightarrow> loss_loop T lt batch result items loss = Inr loss"
proof (induction items arbitrary: loss)
  case Nil
  show ?case by simp
next
  case (Cons a items)
  obtain p tgt where a: "a = (p, tgt)" by (cases a)
  have "tgt = None"
  proof (cases tgt)
    case (Some t)
    then have "(p, t) \<in> with_target (a # items)"
      by (simp add: with_target_def a)
    then show ?thesis using Cons.prems by simp
  qed simp
  moreover have "with_target items = {}"
    using Cons.prems by (auto simp: with_target_def)
  ultimately show ?case
    using Cons.IH a by simp
qed

text \<open>
  C1. For every property map and loss tradeoff table, the function returned by
  \<open>build_loss\<close> evaluates on a batch/result pair to the sum, over exactly the properties
  whose target is not null, of the mean squared error between the target tensor
  \<open>batch[tgt]\<close> and the predicted tensor \<open>result[p]\<close>, times the weight of the property
  in the table, or times 1 when the table has no entry for it. The batch has to hold the
  target tensors and the result the predicted ones (\<open>B\<close> and \<open>R\<close> name them).
\<close>

theorem build_loss_weighted_sum:
  assumes "distinct (map fst property_map)"
    and "\<And>p t. (p, t) \<in> with_target property_map \<Longrightarrow>
           batch t = Some (B t) \<and> result p = Some (R p)"
  shows "build_loss T property_map lt batch result =
         Inr (\<Sum>(p, t) \<in> with_target property_map.
                tradeoff_weight lt p * mean_squared_error T (B t) (R p))"
  using assms by (rule build_loss_sum_set)

theorem build_loss_weighted_sum_witness:
  "distinct (map fst [(''energy'', Some ''E''), (''forces'', None), (''dipole_moment'', Some ''mu'')]) \<and>
   build_loss list_torch
     [(''energy'', Some ''E''), (''forces'', None), (''dipole_moment'', Some ''mu'')]
     [''energy'' \<mapsto> 2]
     [''E'' \<mapsto> [1, 2], ''mu'' \<mapsto> [3]]
     [''energy'' \<mapsto> [0, 0], ''dipole_moment'' \<mapsto> [1]] = Inr 9"
proof -
  let ?pm = "[(''energy'', Some ''E''), (''forces'', None), (''dipole_moment'', Some ''mu'')]"
  let ?b = "[''E'' \<mapsto> [1, 2 :: real], ''mu'' \<mapsto> [3]]"
  let ?r = "[''energy'' \<mapsto> [0, 0 :: real], ''dipole_moment'' \<mapsto> [1]]"
  have wt: "with_target ?pm = {(''energy'', ''E''), (''dipole_moment'', ''mu'')}"
    by (auto simp: with_target_def)
  have "build_loss list_torch ?pm [''energy'' \<mapsto> 2] ?b ?r =
        Inr (\<Sum>(p, t) \<in> with_target ?pm.
               tradeoff_weight [''energy'' \<mapsto> 2] p *
               mean_squared_error list_torch (the (?b t)) (the (?r p)))"
    by (rule build_loss_weighted_sum) (auto simp: wt)
  then show ?thesis
    by (simp add: wt tradeoff_weight_def mean_squared_error_def list_torch_def)
qed

text \<open>
  C9. For every property map in which no property has a target, the empty map among
  them, the loss function returned by \<open>build_loss\<close> returns zero for every batch and
  every result.
\<close>

theorem build_loss_no_target:
  assumes "with_target property_map = {}"
  shows "build_loss T property_map lt batch result = Inr 0"
  using assms by (simp add: build_loss_def loss_loop_no_target)

theorem build_loss_no_target_witness:
  "with_target [(''forces'', None), (''energy'', None)] = {} \<and>
   build_loss list_torch [(''forces'', None), (''energy'', None)] [''energy'' \<mapsto> 2]
     Map.empty Map.empty = Inr 0 \<and>
   build_loss list_torch [] Map.empty [''E'' \<mapsto> [1]] [''energy'' \<mapsto> [5]] = Inr 0"
proof -
  have e: "with_target [(''forces'', None), (''energy'', None)] = {}"
    by (simp add: with_target_def)
  have n: "with_target [] = {}"
    by (simp add: with_target_def)
  show ?thesis
    using e build_loss_no_target [OF e, of list_torch "[''energy'' \<mapsto> 2]" Map.empty Map.empty]
      build_loss_no_target [OF n, of list_torch Map.empty "[''E'' \<mapsto> [1]]" "[''energy'' \<mapsto> [5]]"]
    by simp
qed

subsection \<open>Statistics\<close>

lemma stats_props_filter:
  "stats_props pm = map fst (filter (\<lambda>(p, tgt). tgt \<noteq> None) pm)"
  unfolding stats_props_def by (induction pm) auto

lemma set_stats_props: "set (stats_props pm) = fst ` with_target pm"
  by (force simp: stats_props_filter with_target_def)

lemma distinct_stats_props: "distinct (map fst pm) \<Longrightarrow> distinct (stats_props pm)"
  by (simp add: stats_props_filter distinct_map_filter)

lemma getitems_present:
  "set ks \<subseteq> dom d \<Longrightarrow> \<exists>vs. getitems d ks = Inr vs \<and> map Some vs = map d ks"
  by (induction ks) (auto simp: getitem_def)

lemma getitems_missing:
  "\<not> set ks \<subseteq> dom d \<Longrightarrow> getitems d ks = Inl KeyError"
proof (induction ks)
  case Nil
  then show ?case by simp
next
  case (Cons k ks)
  show ?case
  proof (cases "d k")
    case None
    then show ?thesis by (simp add: getitem_def)
  next
    case (Some v)
    then have "\<not> set ks \<subseteq> dom d"
      using Cons.prems by auto
    then show ?thesis
      using Cons.IH Some by (simp add: getitem_def)
  qed
qed

lemma concat_map_if:
  "concat (map (\<lambda>x. if P x then [f x] else []) xs) = map f (filter P xs)"
  by (induction xs) simp_all

lemma set_statistics_selection:
  "set [p \<leftarrow> stats_props pm. p \<notin> set [Properties_polarizability, Properties_dipole_moment]] =
   statistics_set pm"
  by (auto simp: statistics_set_def set_stats_props)

lemma stats_props_in_dom: "set (stats_props pm) \<subseteq> dom (map_of pm)"
  by (auto simp: set_stats_props with_target_def dom_map_of_conv_image_fst intro: rev_image_eqI)

lemma stats_extensive_map:
  "stats_extensive pm =
   map is_extensive [p \<leftarrow> stats_props pm. p \<notin> set [Properties_polarizability, Properties_dipole_moment]]"
  unfolding stats_extensive_def by (simp add: concat_map_if)

text \<open>
  C3. For every property map and every atomrefs mapping, the lists that \<open>stats\<close> builds
  for statistics (targets, atomrefs and extensivity flags) are taken over a selection of
  properties that never contains polarizability or dipole moment, whether or not the map
  gives them a target: the selection is exactly the properties with a target other than
  these two.
\<close>

theorem stats_lists_exclude:
  "\<exists>sel. set sel = statistics_set property_map \<and>
     Properties_polarizability \<notin> set sel \<and> Properties_dipole_moment \<notin> set sel \<and>
     (\<exists>targets. stats_targets property_map = Inr targets \<and>
        map Some targets = map (map_of property_map) sel) \<and>
     (if set sel \<subseteq> dom atomrefs
      then \<exists>refs. stats_atomrefs atomrefs property_map = Inr refs \<and>
             map Some refs = map atomrefs sel
      else stats_atomrefs atomrefs property_map = Inl KeyError) \<and>
     stats_extensive property_map = map is_extensive sel"
proof -
  let ?sel = "[p \<leftarrow> stats_props property_map.
                p \<notin> set [Properties_polarizability, Properties_dipole_moment]]"
  have "set ?sel \<subseteq> dom (map_of property_map)"
    using stats_props_in_dom [of property_map] by auto
  then have tg: "\<exists>targets. stats_targets property_map = Inr targets \<and>
        map Some targets = map (map_of property_map) ?sel"
    unfolding stats_targets_def by (rule getitems_present)
  have ar: "if set ?sel \<subseteq> dom atomrefs
      then \<exists>refs. stats_atomrefs atomrefs property_map = Inr refs \<and>
             map Some refs = map atomrefs ?sel
      else stats_atomrefs atomrefs property_map = Inl KeyError"
  proof (cases "set ?sel \<subseteq> dom atomrefs")
    case True
    then show ?thesis
      unfolding stats_atomrefs_def using getitems_present [of ?sel atomrefs] by simp
  next
    case False
    then show ?thesis
      unfolding stats_atomrefs_def using getitems_missing [of ?sel atomrefs] by simp
  qed
  have "set ?sel = statistics_set property_map"
    by (rule set_statistics_selection)
  moreover have "Properties_polarizability \<notin> set ?sel" "Properties_dipole_moment \<notin> set ?sel"
    by simp_all
  ultimately show ?thesis
    using tg ar stats_extensive_map [of property_map] by blast
qed

theorem stats_lists_exclude_witness:
  "stats_targets [(''polarizability'', Some ''alpha''), (''energy'', Some ''E''),
                  (''dipole_moment'', Some ''mu''), (''forces'', None)] = Inr [Some ''E''] \<and>
   stats_atomrefs [''polarizability'' \<mapsto> (2::nat), ''energy'' \<mapsto> 1, ''dipole_moment'' \<mapsto> 3]
     [(''polarizability'', Some ''alpha''), (''energy'', Some ''E''),
      (''dipole_moment'', Some ''mu''), (''forces'', None)] = Inr [1] \<and>
   stats_extensive [(''polarizability'', Some ''alpha''), (''energy'', Some ''E''),
                    (''dipole_moment'', Some ''mu''), (''forces'', None)] = [True]"
proof -
  let ?pm = "[(''polarizability'', Some ''alpha''), (''energy'', Some ''E''),
              (''dipole_moment'', Some ''mu''), (''forces'', None)]"
  let ?ar = "[''polarizability'' \<mapsto> (2::nat), ''energy'' \<mapsto> 1, ''dipole_moment'' \<mapsto> 3]"
  have props: "stats_props ?pm = [''polarizability'', ''energy'', ''dipole_moment'']"
    by (simp add: stats_props_def)
  have t: "stats_targets ?pm = Inr [Some ''E'']"
    by (simp add: stats_targets_def props getitem_def Properties_polarizability_def
        Properties_dipole_moment_def)
  have a: "stats_atomrefs ?ar ?pm = Inr [1]"
    by (simp add: stats_atomrefs_def props getitem_def Properties_polarizability_def
        Properties_dipole_moment_def)
  from stats_lists_exclude [of ?pm ?ar]
  obtain sel where "stats_extensive ?pm = map is_extensive sel"
    and "\<exists>targets. stats_targets ?pm = Inr targets \<and> map Some targets = map (map_of ?pm) sel"
    by blast
  then have "sel = [''energy'']"
    using t by (auto simp: map_eq_Cons_conv split: if_splits)
  with \<open>stats_extensive ?pm = map is_extensive sel\<close> have "stats_extensive ?pm = [True]"
    by (simp add: is_extensive_def Properties_energy_def)
  with t a show ?thesis
    by simp
qed

text \<open>
  C4. For every property name \<open>p\<close>, the extensivity flag that statistics resolution
  assigns is true if and only if \<open>p\<close> is the energy property; every other property is
  marked as not extensive. The flags that \<open>stats\<close> builds are the energy test of each
  selected property, in the order of the selection and one for each target, and
  \<open>get_statistics\<close> is called with exactly these flags.
\<close>


theorem extensive_iff_energy:
  "is_extensive p = (p = Properties_energy) \<and>
   stats_extensive property_map =
     map (\<lambda>p. p = Properties_energy)
       [p \<leftarrow> stats_props property_map.
          p \<notin> set [Properties_polarizability, Properties_dipole_moment]] \<and>
   (\<exists>targets. stats_targets property_map = Inr targets \<and>
      map Some targets =
        map (map_of property_map)
          [p \<leftarrow> stats_props property_map.
             p \<notin> set [Properties_polarizability, Properties_dipole_moment]] \<and>
      length (stats_extensive property_map) = length targets) \<and>
   stats get_stats conv atomrefs property_map config =
     stats (\<lambda>targets extensive refs.
              get_stats targets
                (map (\<lambda>p. p = Properties_energy)
                   [p \<leftarrow> stats_props property_map.
                      p \<notin> set [Properties_polarizability, Properties_dipole_moment]]) refs)
       conv atomrefs property_map config"
proof -
  let ?sel = "[p \<leftarrow> stats_props property_map.
                p \<notin> set [Properties_polarizability, Properties_dipole_moment]]"
  have one: "is_extensive p = (p = Properties_energy)"
    by (rule is_extensive_def)
  have "map is_extensive ?sel = map (\<lambda>p. p = Properties_energy) ?sel"
    by (rule map_cong) (simp_all add: is_extensive_def)
  then have ext: "stats_extensive property_map = map (\<lambda>p. p = Properties_energy) ?sel"
    by (simp only: stats_extensive_map)
  have "set ?sel \<subseteq> dom (map_of property_map)"
    using stats_props_in_dom [of property_map] by auto
  then obtain targets where g: "getitems (map_of property_map) ?sel = Inr targets"
    and m: "map Some targets = map (map_of property_map) ?sel"
    using getitems_present by blast
  have t: "stats_targets property_map = Inr targets"
    using g by (simp only: stats_targets_def)
  have "length (map Some targets) = length (map (map_of property_map) ?sel)"
    by (simp only: m)
  then have "length targets = length ?sel"
    by (simp only: length_map)
  then have l: "length (stats_extensive property_map) = length targets"
    by (simp only: ext length_map)
  have tg: "\<exists>targets. stats_targets property_map = Inr targets \<and>
      map Some targets = map (map_of property_map) ?sel \<and>
      length (stats_extensive property_map) = length targets"
    using t m l by blast
  have st: "stats get_stats conv atomrefs property_map config =
     stats (\<lambda>targets extensive refs.
              get_stats targets (map (\<lambda>p. p = Properties_energy) ?sel) refs)
       conv atomrefs property_map config"
    unfolding stats_def ext Let_def by (rule refl)
  show ?thesis
    by (intro conjI) (fact one ext tg st)+
qed

theorem extensive_iff_energy_witness:
  "stats_extensive [(''forces'', Some ''F''), (''polarizability'', Some ''alpha''),
                    (''energy'', Some ''E''), (''charges'', None)] = [False, True] \<and>
   stats_targets [(''forces'', Some ''F''), (''polarizability'', Some ''alpha''),
                  (''energy'', Some ''E''), (''charges'', None)] = Inr [Some ''F'', Some ''E'']"
proof -
  let ?pm = "[(''forces'', Some ''F''), (''polarizability'', Some ''alpha''),
              (''energy'', Some ''E''), (''charges'', None)]"
  have props: "stats_props ?pm = [''forces'', ''polarizability'', ''energy'']"
    by (simp add: stats_props_def)
  have sel: "[p \<leftarrow> stats_props ?pm.
               p \<notin> set [Properties_polarizability, Properties_dipole_moment]] =
             [''forces'', ''energy'']"
    by (simp add: props Properties_polarizability_def Properties_dipole_moment_def)
  note th = extensive_iff_energy [where property_map = ?pm]
  have e: "stats_extensive ?pm = [False, True]"
    using th [THEN conjunct2, THEN conjunct1] unfolding sel
    by (simp add: Properties_energy_def)
  from th [THEN conjunct2, THEN conjunct2, THEN conjunct1]
  obtain targets where t: "stats_targets ?pm = Inr targets"
    and m: "map Some targets = map (map_of ?pm) [''forces'', ''energy'']"
    unfolding sel by blast
  from m have "targets = [Some ''F'', Some ''E'']"
    by (auto simp: map_eq_Cons_conv)
  with t e show ?thesis
    by simp
qed

subsection \<open>The three selections\<close>

lemma with_target_map_of:
  "distinct (map fst pm) \<Longrightarrow> (p, t) \<in> with_target pm \<longleftrightarrow> map_of pm p = Some (Some t)"
  by (auto simp: with_target_def dest: map_of_SomeD)

lemma atomrefs_comprehension:
  "distinct (map fst pm) \<Longrightarrow>
   map_of [(p, f tgt). (p, Some tgt) \<leftarrow> pm] q =
   (case map_of pm q of Some (Some t) \<Rightarrow> Some (f t) | _ \<Rightarrow> None)"
proof (induction pm)
  case Nil
  show ?case by simp
next
  case (Cons a pm)
  obtain p tgt where a: "a = (p, tgt)" by (cases a)
  have notin: "map_of pm p = None"
    using Cons.prems a by (simp add: map_of_eq_None_iff)
  show ?case
    using Cons a notin by (cases tgt) (auto split: option.splits)
qed

lemma prepare_data_atomrefs:
  "snd (snd (snd (prepare_data fm gd AL sd pm bs nt nv nw))) =
   map_of [(p, get_atomref (gd (map snd pm)) tgt). (p, Some tgt) \<leftarrow> pm]"
  by (simp add: prepare_data_def Let_def split: prod.splits)


lemma finite_with_target: "finite (with_target pm)"
  using set_concat_with_target [of pm, symmetric] by (metis List.finite_set)

lemma with_target_remove:
  assumes "distinct (map fst pm)" and "(p, t) \<in> with_target pm"
  shows "with_target [(q, tgt) \<leftarrow> pm. q \<noteq> p] = with_target pm - {(p, t)}"
proof -
  have "\<And>u. (p, u) \<in> with_target pm \<Longrightarrow> u = t"
    using assms by (simp add: with_target_map_of)
  then show ?thesis
    by (auto simp: with_target_def)
qed

lemma dom_atomrefs_comprehension:
  "dom (map_of [(p, f tgt). (p, Some tgt) \<leftarrow> pm]) = fst ` with_target pm"
proof -
  have "fst ` set [(p, f tgt). (p, Some tgt) \<leftarrow> pm] = fst ` with_target pm"
    by (force simp: with_target_def split: option.splits prod.splits)
  then show ?thesis
    by (simp add: dom_map_of_conv_image_fst)
qed

text \<open>
  C5. For every property map, a property with a target that statistics exclude
  (polarizability, dipole moment) still contributes its term to the loss built by
  \<open>build_loss\<close> and still has its entry in the atomrefs mapping built by
  \<open>prepare_data\<close>: the loss and the atomrefs select exactly the properties with a
  target, and the statistics select those except the two excluded properties.
\<close>

theorem excluded_property_in_loss_and_atomrefs:
  assumes "distinct (map fst property_map)"
    and "\<And>q u. (q, u) \<in> with_target property_map \<Longrightarrow>
           batch u = Some (B u) \<and> result q = Some (R q)"
    and "(p, t) \<in> with_target property_map"
    and "p = Properties_polarizability \<or> p = Properties_dipole_moment"
  shows "p \<notin> statistics_set property_map \<and>
    statistics_set property_map =
      fst ` with_target property_map - {Properties_polarizability, Properties_dipole_moment} \<and>
    (\<exists>sel. set sel = statistics_set property_map \<and>
       stats_extensive property_map = map is_extensive sel) \<and>
    snd (snd (snd (prepare_data fm gd AL sd property_map bs nt nv nw))) p =
      Some (get_atomref (gd (map snd property_map)) t) \<and>
    dom (snd (snd (snd (prepare_data fm gd AL sd property_map bs nt nv nw)))) =
      fst ` with_target property_map \<and>
    build_loss T property_map lt batch result =
      Inr (\<Sum>(q, u) \<in> with_target property_map.
             tradeoff_weight lt q * mean_squared_error T (B u) (R q)) \<and>
    (\<exists>x. build_loss T [(q, tgt) \<leftarrow> property_map. q \<noteq> p] lt batch result = Inr x \<and>
       build_loss T property_map lt batch result =
         Inr (tradeoff_weight lt p * mean_squared_error T (B t) (R p) + x))"
proof -
  let ?rest = "[(q, tgt) \<leftarrow> property_map. q \<noteq> p]"
  let ?summand = "\<lambda>(q, u). tradeoff_weight lt q * mean_squared_error T (B u) (R q)"
  have stat: "p \<notin> statistics_set property_map"
    using assms(4) by (auto simp: statistics_set_def)
  have sel: "\<exists>sel. set sel = statistics_set property_map \<and>
       stats_extensive property_map = map is_extensive sel"
    using set_statistics_selection [of property_map] stats_extensive_map [of property_map]
    by blast
  have ar: "snd (snd (snd (prepare_data fm gd AL sd property_map bs nt nv nw))) p =
      Some (get_atomref (gd (map snd property_map)) t)"
    using assms(1,3) by (simp add: prepare_data_atomrefs atomrefs_comprehension with_target_map_of)
  have dom: "dom (snd (snd (snd (prepare_data fm gd AL sd property_map bs nt nv nw)))) =
      fst ` with_target property_map"
    by (simp only: prepare_data_atomrefs dom_atomrefs_comprehension)
  have whole: "build_loss T property_map lt batch result = Inr (sum ?summand (with_target property_map))"
    using assms(1,2) by (rule build_loss_sum_set)
  have drest: "distinct (map fst ?rest)"
    using assms(1) by (simp add: distinct_map_filter)
  have wrest: "with_target ?rest = with_target property_map - {(p, t)}"
    using assms(1,3) by (rule with_target_remove)
  have part: "build_loss T ?rest lt batch result = Inr (sum ?summand (with_target ?rest))"
    using drest by (rule build_loss_sum_set) (use wrest assms(2) in auto)
  have "sum ?summand (with_target property_map) =
        ?summand (p, t) + sum ?summand (with_target property_map - {(p, t)})"
    using finite_with_target assms(3) by (rule sum.remove)
  then have split: "\<exists>x. build_loss T ?rest lt batch result = Inr x \<and>
       build_loss T property_map lt batch result =
         Inr (tradeoff_weight lt p * mean_squared_error T (B t) (R p) + x)"
    using whole part wrest by simp
  show ?thesis
    using stat sel ar dom whole split by (simp add: statistics_set_def)
qed

theorem excluded_property_in_loss_and_atomrefs_witness:
  "distinct (map fst [(''polarizability'', Some ''alpha''), (''energy'', Some ''E'')]) \<and>
   (''polarizability'', ''alpha'') \<in>
     with_target [(''polarizability'', Some ''alpha''), (''energy'', Some ''E'')] \<and>
   ''polarizability'' \<notin>
     statistics_set [(''polarizability'', Some ''alpha''), (''energy'', Some ''E'')] \<and>
   snd (snd (snd (prepare_data (\<lambda>x n. x * real n)
     (\<lambda>ts. \<lparr>data_len = 10, create_splits = (\<lambda>sd a b. ((), (), ())), get_atomref = (\<lambda>t. t @ ''_ref'')\<rparr>)
     (\<lambda>d b s n. ()) 0 [(''polarizability'', Some ''alpha''), (''energy'', Some ''E'')]
     100 (4 / 5) (1 / 10) 2))) ''polarizability'' = Some ''alpha_ref'' \<and>
   build_loss list_torch [(''polarizability'', Some ''alpha''), (''energy'', Some ''E'')]
     [''energy'' \<mapsto> 2] [''alpha'' \<mapsto> [3], ''E'' \<mapsto> [1, 2]]
     [''polarizability'' \<mapsto> [1], ''energy'' \<mapsto> [0, 0]] = Inr 9 \<and>
   build_loss list_torch [(''energy'', Some ''E'')]
     [''energy'' \<mapsto> 2] [''alpha'' \<mapsto> [3], ''E'' \<mapsto> [1, 2]]
     [''polarizability'' \<mapsto> [1], ''energy'' \<mapsto> [0, 0]] = Inr 5"
proof -
  let ?pm = "[(''polarizability'', Some ''alpha''), (''energy'', Some ''E'')]"
  let ?b = "[''alpha'' \<mapsto> [3 :: real], ''E'' \<mapsto> [1, 2]]"
  let ?r = "[''polarizability'' \<mapsto> [1 :: real], ''energy'' \<mapsto> [0, 0]]"
  let ?gd = "\<lambda>ts :: string option list.
     \<lparr>data_len = 10, create_splits = (\<lambda>sd a b. ((), (), ())), get_atomref = (\<lambda>t. t @ ''_ref'')\<rparr>"
  have wt: "with_target ?pm = {(''polarizability'', ''alpha''), (''energy'', ''E'')}"
    by (auto simp: with_target_def)
  have d: "distinct (map fst ?pm)"
    by simp
  have l: "\<And>q u. (q, u) \<in> with_target ?pm \<Longrightarrow>
             ?b u = Some (the (?b u)) \<and> ?r q = Some (the (?r q))"
    by (auto simp: wt)
  have m: "(''polarizability'', ''alpha'') \<in> with_target ?pm"
    by (simp add: wt)
  have e: "''polarizability'' = Properties_polarizability \<or> ''polarizability'' = Properties_dipole_moment"
    by (simp add: Properties_polarizability_def)
  note th = excluded_property_in_loss_and_atomrefs
     [where property_map = ?pm and batch = ?b and result = ?r
        and B = "\<lambda>u. the (?b u)" and R = "\<lambda>q. the (?r q)"
        and p = "''polarizability''" and t = "''alpha''"
        and fm = "\<lambda>x n. x * real n" and gd = ?gd and AL = "\<lambda>d b s n. ()" and sd = 0 and bs = 100 and nt = "4 / 5"
        and nv = "1 / 10" and nw = 2 and T = list_torch and lt = "[''energy'' \<mapsto> 2]",
      OF d l m e]
  note stat = th [THEN conjunct1]
  note aref = th [THEN conjunct2, THEN conjunct2, THEN conjunct2, THEN conjunct1]
  note whole = th [THEN conjunct2, THEN conjunct2, THEN conjunct2, THEN conjunct2,
      THEN conjunct2, THEN conjunct1]
  note split = th [THEN conjunct2, THEN conjunct2, THEN conjunct2, THEN conjunct2,
      THEN conjunct2, THEN conjunct2]
  have nine: "build_loss list_torch ?pm [''energy'' \<mapsto> 2] ?b ?r = Inr 9"
    using whole by (simp add: wt tradeoff_weight_def mean_squared_error_def list_torch_def)
  from split obtain x where
    x: "build_loss list_torch [(''energy'', Some ''E'')] [''energy'' \<mapsto> 2] ?b ?r = Inr x"
    and s: "build_loss list_torch ?pm [''energy'' \<mapsto> 2] ?b ?r =
      Inr (tradeoff_weight [''energy'' \<mapsto> 2] ''polarizability'' *
           mean_squared_error list_torch (the (?b ''alpha'')) (the (?r ''polarizability'')) + x)"
    by auto
  have "tradeoff_weight [''energy'' \<mapsto> 2] ''polarizability'' *
        mean_squared_error list_torch (the (?b ''alpha'')) (the (?r ''polarizability'')) = 4"
    by (simp add: tradeoff_weight_def mean_squared_error_def list_torch_def)
  with s nine have "x = 5"
    by simp
  with x have five: "build_loss list_torch [(''energy'', Some ''E'')] [''energy'' \<mapsto> 2] ?b ?r = Inr 5"
    by simp
  have ar: "snd (snd (snd (prepare_data (\<lambda>x n. x * real n) ?gd (\<lambda>d b s n. ()) 0 ?pm 100
      (4 / 5) (1 / 10) 2)))
      ''polarizability'' = Some ''alpha_ref''"
    using aref by simp
  show ?thesis
    using d m stat nine five ar by simp
qed

subsection \<open>Split sizes\<close>

lemma py_int_nonneg: "0 \<le> x \<Longrightarrow> py_int x = \<lfloor>x\<rfloor>"
  by (simp add: py_int_def)

text \<open>
  C10. In \<open>prepare_data\<close>, \<open>num_train\<close> (and likewise \<open>num_val\<close>) is taken as a
  fraction of the size of the data set if and only if it is strictly less than 1, and the
  product, as Python computes it, is then rounded down by \<open>int\<close>; a value of exactly 1 is
  used unchanged, as a split of one sample, and any value of at least 1 is an absolute
  count. The sizes are what \<open>create_splits\<close> receives. The product of a fraction and
  the size is not negative; for such a product \<open>int\<close>, which drops the fractional part,
  rounds down.
\<close>

theorem prepare_data_split_sizes:
  assumes "nt < 1 \<longrightarrow> 0 \<le> fm nt (data_len (gd (map snd property_map)))"
    and "nv < 1 \<longrightarrow> 0 \<le> fm nv (data_len (gd (map snd property_map)))"
  shows "prepare_data fm gd AL sd property_map bs nt nv nw =
     (let data = gd (map snd property_map);
          (train, val, test) =
             create_splits data sd (split_size fm nt (data_len data))
               (split_size fm nv (data_len data))
      in (AL train bs True nw, AL val bs False nw, AL test bs False nw,
          map_of [(p, get_atomref data tgt). (p, Some tgt) \<leftarrow> property_map])) \<and>
     (nt < 1 \<longrightarrow> split_size fm nt n = real_of_int \<lfloor>fm nt n\<rfloor>) \<and>
     (1 \<le> nt \<longrightarrow> split_size fm nt n = nt) \<and>
     split_size fm 1 n = 1"
proof -
  let ?n = "data_len (gd (map snd property_map))"
  have t: "(if nt < 1 then real_of_int (py_int (fm nt ?n)) else nt) = split_size fm nt ?n"
    using assms(1) by (simp add: split_size_def py_int_nonneg)
  have v: "(if nv < 1 then real_of_int (py_int (fm nv ?n)) else nv) = split_size fm nv ?n"
    using assms(2) by (simp add: split_size_def py_int_nonneg)
  have "prepare_data fm gd AL sd property_map bs nt nv nw =
     (let data = gd (map snd property_map);
          (train, val, test) =
             create_splits data sd (split_size fm nt (data_len data))
               (split_size fm nv (data_len data))
      in (AL train bs True nw, AL val bs False nw, AL test bs False nw,
          map_of [(p, get_atomref data tgt). (p, Some tgt) \<leftarrow> property_map]))"
    unfolding prepare_data_def Let_def t v ..
  moreover have "split_size fm 1 n = 1"
    by (simp add: split_size_def)
  ultimately show ?thesis
    by (simp add: split_size_def)
qed

theorem prepare_data_split_sizes_witness:
  "prepare_data (\<lambda>x n. x * real n)
     (\<lambda>ts. \<lparr>data_len = 10, create_splits = (\<lambda>sd a b. (a, b, 10 - a - b)),
            get_atomref = (\<lambda>t. t)\<rparr>)
     (\<lambda>d b s n. d) 0 [] 100 (3 / 4) 1 2 = (7, 1, 2, Map.empty)"
proof -
  let ?gd = "\<lambda>ts :: string option list.
     \<lparr>data_len = 10, create_splits = (\<lambda>sd a b. (a, b, 10 - a - b :: real)),
      get_atomref = (\<lambda>t :: string. t)\<rparr>"
  let ?fm = "\<lambda>(x :: real) (n :: nat). x * real n"
  have a: "(3 / 4 :: real) < 1 \<longrightarrow> 0 \<le> ?fm (3 / 4) (data_len (?gd (map snd [])))"
    by simp
  have b: "(1 :: real) < 1 \<longrightarrow> 0 \<le> ?fm 1 (data_len (?gd (map snd [])))"
    by simp
  have f: "\<lfloor>3 * 10 / (4::real)\<rfloor> = 7"
    by linarith
  show ?thesis
    using prepare_data_split_sizes [of "3 / 4" ?fm ?gd "[]" 1 "\<lambda>d b s n. d" 0 100 2 10, OF a b] f
    by (simp add: split_size_def)
qed

subsection \<open>The statistics dicts\<close>


lemma fold_dict_update:
  "fold (\<lambda>(k, v) d. d(k \<mapsto> v)) kvs m = m ++ map_of (rev kvs)"
proof -
  define f where "f = (\<lambda>(k :: 'a, v :: 'b) (d :: 'a \<rightharpoonup> 'b). d(k \<mapsto> v))"
  have "fold f kvs m = m ++ map_of (rev kvs)" for m
  proof (induction kvs arbitrary: m)
    case Nil
    show ?case by simp
  next
    case (Cons a kvs)
    obtain k v where a: "a = (k, v)" by (cases a)
    have fa: "f a m = m(k \<mapsto> v)"
      by (simp add: f_def a)
    have "fold f (a # kvs) m = fold f kvs (f a m)"
      by simp
    also have "\<dots> = fold f kvs (m(k \<mapsto> v))"
      by (simp only: fa)
    also have "\<dots> = m(k \<mapsto> v) ++ map_of (rev kvs)"
      by (rule Cons.IH)
    also have "m(k \<mapsto> v) = m ++ [k \<mapsto> v]"
      by simp
    also have "(m ++ [k \<mapsto> v]) ++ map_of (rev kvs) = m ++ ([k \<mapsto> v] ++ map_of (rev kvs))"
      by (rule map_add_assoc [symmetric])
    also have "[k \<mapsto> v] ++ map_of (rev kvs) = map_of (rev (a # kvs))"
      unfolding a by (simp add: map_of_append)
    finally show ?case .
  qed
  then show ?thesis
    unfolding f_def .
qed

lemma dict_map_of_rev: "dict kvs = map_of (rev kvs)"
  by (simp add: dict_def fold_dict_update)

lemma dict_distinct: "distinct (map fst kvs) \<Longrightarrow> dict kvs = map_of kvs"
proof -
  assume d: "distinct (map fst kvs)"
  then have "distinct (map fst (rev kvs))"
    by (simp add: rev_map [symmetric])
  then have "map_of (rev kvs) = map_of kvs"
    using d by (simp add: map_of_inject_set)
  then show ?thesis
    by (simp add: dict_map_of_rev)
qed

lemma zip_take_right: "zip ks vs = zip (take (length vs) ks) vs"
proof (induction ks arbitrary: vs)
  case Nil
  show ?case by simp
next
  case (Cons k ks)
  then show ?case by (cases vs) simp_all
qed

lemma dom_dict_zip: "dom (dict (zip ks vs)) = set (take (length vs) ks)"
proof -
  have "dom (dict (zip ks vs)) = fst ` set (zip ks vs)"
    by (simp add: dict_map_of_rev dom_map_of_conv_image_fst)
  also have "\<dots> = set (map fst (zip ks vs))"
    by simp
  also have "map fst (zip ks vs) = take (length vs) ks"
    by (simp add: map_fst_zip_take min_def)
  finally show ?thesis .
qed

lemma dict_zip_nth:
  assumes "distinct ks" and "i < length vs" and "length vs \<le> length ks"
  shows "dict (zip ks vs) (ks ! i) = Some (vs ! i)"
proof -
  let ?ks = "take (length vs) ks"
  have len: "length ?ks = length vs"
    using assms(3) by simp
  have "distinct (map fst (zip ?ks vs))"
    using assms(1) len by (simp add: distinct_take)
  then have "dict (zip ?ks vs) = map_of (zip ?ks vs)"
    by (rule dict_distinct)
  then have "dict (zip ks vs) = map_of (zip ?ks vs)"
    using zip_take_right [of ks vs] by simp
  moreover have "map_of (zip ?ks vs) (?ks ! i) = Some (vs ! i)"
    using len assms(1,2) by (intro map_of_zip_nth) (simp_all add: distinct_take)
  ultimately show ?thesis
    using assms(2) by simp
qed


lemma stats_targets_selection:
  assumes "stats_targets pm = Inr targets"
  shows "map Some targets =
         map (map_of pm)
           [p \<leftarrow> stats_props pm. p \<notin> set [Properties_polarizability, Properties_dipole_moment]]"
proof -
  let ?sel = "[p \<leftarrow> stats_props pm. p \<notin> set [Properties_polarizability, Properties_dipole_moment]]"
  have "set ?sel \<subseteq> dom (map_of pm)"
    using stats_props_in_dom [of pm] by auto
  then obtain vs where "getitems (map_of pm) ?sel = Inr vs" and "map Some vs = map (map_of pm) ?sel"
    using getitems_present by blast
  then show ?thesis
    using assms by (simp add: stats_targets_def)
qed

lemma length_filter_excluded:
  assumes "x \<in> set xs" and "\<not> P x"
  shows "length (filter P xs) < length xs"
  using assms by (induction xs) (auto simp: less_Suc_eq_le)

text \<open>
  C6. When \<open>stats\<close> computes the statistics (mean or stddev is not supplied) and the
  properties with a target include polarizability or dipole moment together with at
  least one property that takes part in statistics, the mean and stddev dicts are the
  zip of the whole list of target-bearing properties with the statistics of the selected
  targets only. The zip stops at the shorter list, so the keys are a proper prefix of
  the whole list, not the selection, and the \<open>i\<close>-th property of the whole list gets the
  \<open>i\<close>-th statistic, which was computed for the \<open>i\<close>-th selected target. The loader is
  taken to return one mean and one stddev per target.
\<close>

theorem stats_zips_unfiltered_props:
  assumes "distinct (map fst property_map)"
    and "mean config = None \<or> stddev config = None"
    and "statistics_set property_map \<noteq> {}"
    and "Properties_polarizability \<in> fst ` with_target property_map \<or>
         Properties_dipole_moment \<in> fst ` with_target property_map"
    and "stats_targets property_map = Inr targets"
    and "stats_atomrefs atomrefs property_map = Inr refs"
    and "get_stats targets (stats_extensive property_map) refs = (m, s)"
    and "length m = length targets" and "length s = length targets"
  shows "stats get_stats conv atomrefs property_map config =
           (Inr (Some (dict (zip (stats_props property_map) (map conv m))),
                 Some (dict (zip (stats_props property_map) (map conv s)))),
            config\<lparr>mean := Some (dict (zip (stats_props property_map) (map conv m))),
                   stddev := Some (dict (zip (stats_props property_map) (map conv s)))\<rparr>) \<and>
         length targets < length (stats_props property_map) \<and>
         dom (dict (zip (stats_props property_map) (map conv m))) =
           set (take (length targets) (stats_props property_map)) \<and>
         dom (dict (zip (stats_props property_map) (map conv s))) =
           set (take (length targets) (stats_props property_map)) \<and>
         (\<forall>i < length targets.
            dict (zip (stats_props property_map) (map conv m)) (stats_props property_map ! i) =
              Some (conv (m ! i)) \<and>
            dict (zip (stats_props property_map) (map conv s)) (stats_props property_map ! i) =
              Some (conv (s ! i))) \<and>
         (\<exists>sel. set sel = statistics_set property_map \<and> length sel = length targets \<and>
            map Some targets = map (map_of property_map) sel)"
proof -
  let ?props = "stats_props property_map"
  let ?sel = "[p \<leftarrow> ?props. p \<notin> set [Properties_polarizability, Properties_dipole_moment]]"
  have sel: "map Some targets = map (map_of property_map) ?sel"
    using assms(5) by (rule stats_targets_selection)
  then have len: "length ?sel = length targets"
    by (metis length_map)
  have setsel: "set ?sel = statistics_set property_map"
    by (rule set_statistics_selection)
  have "set ?sel \<noteq> {}"
    unfolding setsel by (rule assms(3))
  then have "?sel \<noteq> []"
    by (metis set_empty)
  then have "0 < length ?sel"
    by (metis length_greater_0_conv)
  then have pos: "0 < length targets"
    unfolding len .
  have "Properties_polarizability \<in> set ?props \<or> Properties_dipole_moment \<in> set ?props"
    unfolding set_stats_props by (rule assms(4))
  then obtain x where x: "x \<in> set ?props"
    and ex: "x = Properties_polarizability \<or> x = Properties_dipole_moment"
    by blast
  have "\<not> x \<notin> set [Properties_polarizability, Properties_dipole_moment]"
    using ex by simp
  with x have "length ?sel < length ?props"
    by (rule length_filter_excluded)
  then have short: "length targets < length ?props"
    unfolding len .
  have run: "stats get_stats conv atomrefs property_map config =
           (Inr (Some (dict (zip ?props (map conv m))), Some (dict (zip ?props (map conv s)))),
            config\<lparr>mean := Some (dict (zip ?props (map conv m))),
                   stddev := Some (dict (zip ?props (map conv s)))\<rparr>)"
    using assms(2,5,6,7) pos by (simp add: stats_def Let_def)
  have dm: "dom (dict (zip ?props (map conv m))) = set (take (length targets) ?props)"
    using assms(8) by (simp add: dom_dict_zip)
  have ds: "dom (dict (zip ?props (map conv s))) = set (take (length targets) ?props)"
    using assms(9) by (simp add: dom_dict_zip)
  have dp: "distinct ?props"
    using assms(1) by (rule distinct_stats_props)
  have nth: "dict (zip ?props (map conv m)) (?props ! i) = Some (conv (m ! i)) \<and>
             dict (zip ?props (map conv s)) (?props ! i) = Some (conv (s ! i))"
    if "i < length targets" for i
    using dict_zip_nth [OF dp, of i "map conv m"] dict_zip_nth [OF dp, of i "map conv s"]
      that short assms(8,9) by simp
  have all: "\<forall>i < length targets.
      dict (zip ?props (map conv m)) (?props ! i) = Some (conv (m ! i)) \<and>
      dict (zip ?props (map conv s)) (?props ! i) = Some (conv (s ! i))"
    using nth by blast
  have exsel: "\<exists>sel. set sel = statistics_set property_map \<and> length sel = length targets \<and>
      map Some targets = map (map_of property_map) sel"
    using setsel len sel by blast
  show ?thesis
    by (intro conjI) (fact run short dm ds all exsel)+
qed


theorem stats_zips_unfiltered_props_witness:
  "stats (\<lambda>t e a. (map (\<lambda>_. 5) t, map (\<lambda>_. 7) t)) (\<lambda>x. x)
     [''polarizability'' \<mapsto> (2::nat), ''energy'' \<mapsto> 1]
     [(''polarizability'', Some ''alpha''), (''energy'', Some ''E'')] (cfg :: real config) =
     (Inr (Some [''polarizability'' \<mapsto> 5], Some [''polarizability'' \<mapsto> 7]),
      cfg\<lparr>mean := Some [''polarizability'' \<mapsto> 5],
          stddev := Some [''polarizability'' \<mapsto> 7]\<rparr>) \<and>
   stats_targets [(''polarizability'', Some ''alpha''), (''energy'', Some ''E'')] =
     Inr [Some ''E'']"
proof -
  let ?pm = "[(''polarizability'', Some ''alpha''), (''energy'', Some ''E'')]"
  let ?ar = "[''polarizability'' \<mapsto> (2::nat), ''energy'' \<mapsto> 1]"
  let ?G = "\<lambda>(t :: string option list) (e :: bool list) (a :: nat list).
              (map (\<lambda>_. 5::real) t, map (\<lambda>_. 7::real) t)"
  have props: "stats_props ?pm = [''polarizability'', ''energy'']"
    by (simp add: stats_props_def)
  have t: "stats_targets ?pm = Inr [Some ''E'']"
    by (simp add: stats_targets_def props getitem_def Properties_polarizability_def
        Properties_dipole_moment_def)
  have a: "stats_atomrefs ?ar ?pm = Inr [1]"
    by (simp add: stats_atomrefs_def props getitem_def Properties_polarizability_def
        Properties_dipole_moment_def)
  have d: "distinct (map fst ?pm)"
    by simp
  have n: "mean (cfg :: real config) = None \<or> stddev (cfg :: real config) = None"
    by (simp add: cfg_def)
  have wt: "with_target ?pm = {(''polarizability'', ''alpha''), (''energy'', ''E'')}"
    by (auto simp: with_target_def)
  have ne: "statistics_set ?pm \<noteq> {}"
    by (simp add: statistics_set_def wt Properties_polarizability_def
        Properties_dipole_moment_def)
  have ex: "Properties_polarizability \<in> fst ` with_target ?pm \<or>
            Properties_dipole_moment \<in> fst ` with_target ?pm"
    by (simp add: wt Properties_polarizability_def)
  have g: "?G [Some ''E''] (stats_extensive ?pm) [1] = ([5], [7])"
    by simp
  have run: "stats ?G (\<lambda>x. x) ?ar ?pm (cfg :: real config) =
      (Inr (Some (dict (zip (stats_props ?pm) (map (\<lambda>x. x) [5]))),
            Some (dict (zip (stats_props ?pm) (map (\<lambda>x. x) [7])))),
       cfg\<lparr>mean := Some (dict (zip (stats_props ?pm) (map (\<lambda>x. x) [5]))),
           stddev := Some (dict (zip (stats_props ?pm) (map (\<lambda>x. x) [7])))\<rparr>)"
    by (rule stats_zips_unfiltered_props
        [where property_map = ?pm and config = "cfg :: real config" and targets = "[Some ''E'']"
           and atomrefs = ?ar and refs = "[1]" and get_stats = ?G and m = "[5]" and s = "[7]"
           and conv = "\<lambda>x. x", OF d n ne ex t a g, THEN conjunct1]) simp_all
  have z5: "dict (zip (stats_props ?pm) (map (\<lambda>x. x) [5::real])) = [''polarizability'' \<mapsto> 5]"
    by (simp add: props dict_def)
  have z7: "dict (zip (stats_props ?pm) (map (\<lambda>x. x) [7::real])) = [''polarizability'' \<mapsto> 7]"
    by (simp add: props dict_def)
  show ?thesis
    using run t unfolding z5 z7 by simp
qed

subsection \<open>The model directory\<close>


lemma not_prefix_butlast: "p \<noteq> [] \<Longrightarrow> \<not> prefix p (butlast p)"
proof
  assume ne: "p \<noteq> []" and pr: "prefix p (butlast p)"
  from pr have "length p \<le> length (butlast p)"
    by (rule prefix_length_le)
  moreover from ne have "0 < length p"
    by simp
  then have "length (butlast p) < length p"
    by simp
  ultimately show False
    by linarith
qed

lemma makedirs_fs_parent_present:
  assumes "p \<noteq> []" and "f p = None"
    and "butlast p \<noteq> [] \<longrightarrow> f (butlast p) = Some Dir"
  shows "makedirs_fs f p = Inr (f(p \<mapsto> Dir))"
proof (cases "butlast p = []")
  case True
  then show ?thesis
    using assms(1,2) by (simp add: makedirs_fs.simps [of f p] mkdir_def)
next
  case False
  with assms(3) have "f (butlast p) = Some Dir"
    by simp
  then show ?thesis
    using assms(1,2) by (simp add: makedirs_fs.simps [of f p] mkdir_def path_exists_def)
qed

lemma create_modeldir_overwrite_dir:
  assumes "fs w p = Some Dir" and "p \<noteq> []"
    and "butlast p \<noteq> [] \<longrightarrow> fs w (butlast p) = Some Dir"
  shows "create_modeldir (Some p) True w =
           (None, w\<lparr>fs := (\<lambda>q. if q = p then Some Dir else if prefix p q then None else fs w q),
                    trace := trace w @ [LogInfo ''Create model directory'', Rmtree p, Makedirs p]\<rparr>)"
proof -
  let ?f1 = "\<lambda>q. if prefix p q then None else fs w q"
  have np: "\<not> prefix p (butlast p)"
    using assms(2) by (rule not_prefix_butlast)
  have "makedirs_fs ?f1 p = Inr (?f1(p \<mapsto> Dir))"
    using assms(2,3) np by (intro makedirs_fs_parent_present) simp_all
  moreover have "?f1(p \<mapsto> Dir) = (\<lambda>q. if q = p then Some Dir else if prefix p q then None else fs w q)"
    by (rule ext) simp
  ultimately have mk: "makedirs_fs ?f1 p =
      Inr (\<lambda>q. if q = p then Some Dir else if prefix p q then None else fs w q)"
    by simp
  show ?thesis
    using assms(1) mk
    by (simp add: create_modeldir_def Let_def emit_def path_exists_def rmtree_def makedirs_def
        cong: if_cong)
qed

text \<open>
  C7. For every model directory path that exists, \<open>create_modeldir\<close> with
  \<open>overwrite=False\<close> raises the configuration error \<open>ValueError\<close> and leaves the file
  system as it was, the directory and all that it holds included; it only logs its
  message.
\<close>

theorem create_modeldir_exists_no_overwrite:
  assumes "path_exists (fs w) p"
  shows "fst (create_modeldir (Some p) False w) = Some ValueError \<and>
         fs (snd (create_modeldir (Some p) False w)) = fs w \<and>
         trace (snd (create_modeldir (Some p) False w)) =
           trace w @ [LogInfo ''Create model directory'']"
  using assms by (simp add: create_modeldir_def Let_def emit_def)

text \<open>
  C8. For every existing model directory (below the working directory, inside a
  directory, as every directory of a file system is), \<open>create_modeldir\<close> with
  \<open>overwrite=True\<close> removes the tree and creates the directory again: afterwards the path
  is a directory with nothing below it, and every path outside it is as before. Running
  it a second time succeeds too and gives the same file system as running it once.
\<close>

theorem create_modeldir_overwrite_fresh:
  assumes "fs w p = Some Dir" and "p \<noteq> []"
    and "butlast p \<noteq> [] \<longrightarrow> fs w (butlast p) = Some Dir"
  shows "fst (create_modeldir (Some p) True w) = None \<and>
         fs (snd (create_modeldir (Some p) True w)) =
           (\<lambda>q. if q = p then Some Dir else if prefix p q then None else fs w q) \<and>
         trace (snd (create_modeldir (Some p) True w)) =
           trace w @ [LogInfo ''Create model directory'', Rmtree p, Makedirs p] \<and>
         fst (create_modeldir (Some p) True (snd (create_modeldir (Some p) True w))) = None \<and>
         fs (snd (create_modeldir (Some p) True (snd (create_modeldir (Some p) True w)))) =
           fs (snd (create_modeldir (Some p) True w))"
proof -
  let ?F = "\<lambda>q. if q = p then Some Dir else if prefix p q then None else fs w q"
  let ?w1 = "w\<lparr>fs := ?F,
               trace := trace w @ [LogInfo ''Create model directory'', Rmtree p, Makedirs p]\<rparr>"
  have one: "create_modeldir (Some p) True w = (None, ?w1)"
    using assms by (rule create_modeldir_overwrite_dir)
  have np: "\<not> prefix p (butlast p)"
    using assms(2) by (rule not_prefix_butlast)
  have bp: "butlast p \<noteq> p"
    using np by auto
  have h1: "fs ?w1 p = Some Dir"
    by simp
  have h3: "butlast p \<noteq> [] \<longrightarrow> fs ?w1 (butlast p) = Some Dir"
    using assms(3) np bp by simp
  have two: "create_modeldir (Some p) True ?w1 =
      (None, ?w1\<lparr>fs := (\<lambda>q. if q = p then Some Dir else if prefix p q then None else fs ?w1 q),
                  trace := trace ?w1 @ [LogInfo ''Create model directory'', Rmtree p, Makedirs p]\<rparr>)"
    using h1 assms(2) h3 by (rule create_modeldir_overwrite_dir)
  have same: "(\<lambda>q. if q = p then Some Dir else if prefix p q then None else fs ?w1 q) = ?F"
    by (rule ext) simp
  show ?thesis
    unfolding one using two same by simp
qed


theorem create_modeldir_exists_no_overwrite_witness:
  "path_exists (fs trained_world) [''models'', ''debug''] \<and>
   fst (create_modeldir (Some [''models'', ''debug'']) False trained_world) = Some ValueError \<and>
   fs (snd (create_modeldir (Some [''models'', ''debug'']) False trained_world))
     [''models'', ''debug'', ''best_model''] = Some (File 1)"
proof -
  have e: "path_exists (fs trained_world) [''models'', ''debug'']"
    by (simp add: path_exists_def trained_world_def)
  have f: "fs trained_world [''models'', ''debug'', ''best_model''] = Some (File 1)"
    by (simp add: trained_world_def)
  show ?thesis
    using create_modeldir_exists_no_overwrite [OF e] e f by simp
qed

theorem create_modeldir_overwrite_fresh_witness:
  "fst (create_modeldir (Some [''models'', ''debug'']) True trained_world) = None \<and>
   fs (snd (create_modeldir (Some [''models'', ''debug'']) True trained_world))
     [''models'', ''debug''] = Some Dir \<and>
   fs (snd (create_modeldir (Some [''models'', ''debug'']) True trained_world))
     [''models'', ''debug'', ''best_model''] = None \<and>
   fs (snd (create_modeldir (Some [''models'', ''debug'']) True trained_world))
     [''notes''] = Some (File 2) \<and>
   fs (snd (create_modeldir (Some [''models'', ''debug'']) True
              (snd (create_modeldir (Some [''models'', ''debug'']) True trained_world)))) =
     fs (snd (create_modeldir (Some [''models'', ''debug'']) True trained_world))"
proof -
  let ?p = "[''models'', ''debug'']"
  have d: "fs trained_world ?p = Some Dir"
    by (simp add: trained_world_def)
  have n: "?p \<noteq> []"
    by simp
  have b: "butlast ?p \<noteq> [] \<longrightarrow> fs trained_world (butlast ?p) = Some Dir"
    by (simp add: trained_world_def)
  have g: "fs trained_world [''notes''] = Some (File 2)"
    by (simp add: trained_world_def)
  note th = create_modeldir_overwrite_fresh [OF d n b]
  have r: "fst (create_modeldir (Some ?p) True trained_world) = None"
    using th by (rule conjunct1)
  have F: "fs (snd (create_modeldir (Some ?p) True trained_world)) =
      (\<lambda>q. if q = ?p then Some Dir else if prefix ?p q then None else fs trained_world q)"
    using th by (elim conjE)
  have i: "fs (snd (create_modeldir (Some ?p) True
              (snd (create_modeldir (Some ?p) True trained_world)))) =
     fs (snd (create_modeldir (Some ?p) True trained_world))"
    using th by (elim conjE)
  have a: "fs (snd (create_modeldir (Some ?p) True trained_world)) ?p = Some Dir"
    unfolding F by simp
  have c: "fs (snd (create_modeldir (Some ?p) True trained_world))
      [''models'', ''debug'', ''best_model''] = None"
    unfolding F by simp
  have e: "fs (snd (create_modeldir (Some ?p) True trained_world)) [''notes''] = Some (File 2)"
    unfolding F using g by simp
  show ?thesis
    by (intro conjI) (fact r a c e i)+
qed

subsection \<open>The configuration snapshot\<close>


lemma create_modeldir_no_write:
  "filter is_write (trace (snd (create_modeldir md ow w))) = filter is_write (trace w)"
  by (simp add: create_modeldir_def Let_def emit_def rmtree_def makedirs_def path_exists_def
      split: option.split node.split sum.split)

lemma save_config_written:
  assumes "save_config y c md w = (None, w2)"
  shows "\<exists>d. md = Some d \<and>
           w2 = w\<lparr>fs := (fs w)(d @ [''config.yaml''] \<mapsto> File (y c)),
                  trace := trace w @ [WriteFile (d @ [''config.yaml'']) (y c)]\<rparr>"
  using assms
  by (cases md) (simp_all add: save_config_def Let_def emit_def split: if_splits)

lemma stats_returns_config:
  assumes "stats g conv ar pm c = (Inr (m, s), c')"
  shows "m = mean c' \<and> s = stddev c'"
  using assms
  by (simp add: stats_def Let_def split: sum.splits) auto

lemma train_stages:
  assumes "train E config w0 = (Inr (m, s, ar, props), config', w')"
  shows "\<exists>w1 w2. create_modeldir (modeldir config) (overwrite config) w0 = (None, w1) \<and>
           save_config (yaml_dump E) config (modeldir config) w1 = (None, w2) \<and>
           w' = w2\<lparr>trace := trace w2 @ [LogInfo ''Load data'', LogInfo ''Build model'',
                                         LogInfo ''Setup training'', LogInfo ''Training'']\<rparr> \<and>
           m = mean config' \<and> s = stddev config'"
proof -
  obtain r1 w1 where cm: "create_modeldir (modeldir config) (overwrite config) w0 = (r1, w1)"
    by (cases "create_modeldir (modeldir config) (overwrite config) w0")
  obtain r2 w2 where sc: "save_config (yaml_dump E) config (modeldir config) w1 = (r2, w2)"
    by (cases "save_config (yaml_dump E) config (modeldir config) w1")
  have r1: "r1 = None"
    using assms cm by (cases r1) (simp_all add: train_def Let_def)
  have r2: "r2 = None"
    using assms cm sc r1 by (cases r2) (simp_all add: train_def Let_def)
  obtain tl vl tsl atomrefs where pd:
    "prepare_data (float_mul E) (get_dataset E) (AtomsLoader E) (seed E)
       (get_property_map E (properties config)) (batch_size config) (num_train config)
       (num_val config) (num_workers config) = (tl, vl, tsl, atomrefs)"
    by (metis prod_cases4)
  obtain r3 c3 where st:
    "stats (get_statistics E tl) (tolist E) atomrefs (get_property_map E (properties config))
       config = (r3, c3)"
    by (metis surj_pair)
  from assms cm sc r1 r2 pd st obtain m3 s3 where r3: "r3 = Inr (m3, s3)"
    by (cases r3) (auto simp: train_def Let_def)
  from assms cm sc r1 r2 pd st r3
  have e: "m = m3" "s = s3" "config' = c3"
    "w' = w2\<lparr>trace := trace w2 @ [LogInfo ''Load data'', LogInfo ''Build model'',
                                  LogInfo ''Setup training'', LogInfo ''Training'']\<rparr>"
    by (simp_all add: train_def Let_def emit_def)
  from st r3 e have "m = mean config' \<and> s = stddev config'"
    using stats_returns_config by blast
  with cm sc r1 r2 e(4) show ?thesis
    by blast
qed


lemma example_create_modeldir:
  "create_modeldir (Some [''models'', ''debug'']) True (empty_world :: real config world) =
     (None, \<lparr>fs = [[''models''] \<mapsto> Dir, [''models'', ''debug''] \<mapsto> Dir],
             trace = [LogInfo ''Create model directory'', Makedirs [''models'', ''debug'']]\<rparr>)"
proof -
  have "makedirs_fs (Map.empty :: real config filesystem) [''models''] =
          Inr [[''models''] \<mapsto> Dir]"
    by (simp add: makedirs_fs.simps [of _ "[''models'']"] mkdir_def)
  then have "makedirs_fs (Map.empty :: real config filesystem) [''models'', ''debug''] =
          Inr [[''models''] \<mapsto> Dir, [''models'', ''debug''] \<mapsto> Dir]"
    by (simp add: makedirs_fs.simps [of _ "[''models'', ''debug'']"] mkdir_def path_exists_def)
  then show ?thesis
    by (simp add: create_modeldir_def Let_def emit_def empty_world_def path_exists_def
        makedirs_def)
qed

lemma example_stats:
  "stats (\<lambda>ts ex ar. (map (\<lambda>t. 5) ts, map (\<lambda>t. 7) ts)) (\<lambda>x. x)
     [''forces'' \<mapsto> ''forces'', ''energy'' \<mapsto> ''energy'']
     [(''energy'', Some ''energy''), (''forces'', Some ''forces'')] (debug_config :: real config) =
     (Inr (Some [''energy'' \<mapsto> 5, ''forces'' \<mapsto> 5], Some [''energy'' \<mapsto> 7, ''forces'' \<mapsto> 7]),
      debug_config\<lparr>mean := Some [''energy'' \<mapsto> 5, ''forces'' \<mapsto> 5],
                   stddev := Some [''energy'' \<mapsto> 7, ''forces'' \<mapsto> 7]\<rparr>)"
proof -
  let ?pm = "[(''energy'', Some ''energy''), (''forces'', Some ''forces'')]"
  have props: "stats_props ?pm = [''energy'', ''forces'']"
    by (simp add: stats_props_def)
  have t: "stats_targets ?pm = Inr [Some ''energy'', Some ''forces'']"
    by (simp add: stats_targets_def props getitem_def Properties_polarizability_def
        Properties_dipole_moment_def)
  have a: "stats_atomrefs [''forces'' \<mapsto> ''forces'', ''energy'' \<mapsto> ''energy''] ?pm =
      Inr [''energy'', ''forces'']"
    by (simp add: stats_atomrefs_def props getitem_def Properties_polarizability_def
        Properties_dipole_moment_def)
  have n: "mean (debug_config :: real config) = None"
    by (simp add: debug_config_def cfg_def)
  show ?thesis
    by (simp add: stats_def Let_def props t a n dict_def)
qed

lemma example_run:
  "train example_ingredients debug_config empty_world =
     (Inr (Some [''energy'' \<mapsto> 5, ''forces'' \<mapsto> 5], Some [''energy'' \<mapsto> 7, ''forces'' \<mapsto> 7],
           [''forces'' \<mapsto> ''forces'', ''energy'' \<mapsto> ''energy''], [''energy'', ''forces'']),
      debug_config\<lparr>mean := Some [''energy'' \<mapsto> 5, ''forces'' \<mapsto> 5],
                   stddev := Some [''energy'' \<mapsto> 7, ''forces'' \<mapsto> 7]\<rparr>,
      \<lparr>fs = [[''models''] \<mapsto> Dir, [''models'', ''debug''] \<mapsto> Dir,
             [''models'', ''debug'', ''config.yaml''] \<mapsto> File debug_config],
       trace = [LogInfo ''Create model directory'', Makedirs [''models'', ''debug''],
                WriteFile [''models'', ''debug'', ''config.yaml''] debug_config,
                LogInfo ''Load data'', LogInfo ''Build model'', LogInfo ''Setup training'',
                LogInfo ''Training'']\<rparr>)"
proof -
  have md: "modeldir (debug_config :: real config) = Some [''models'', ''debug'']"
    and ow: "overwrite (debug_config :: real config) = True"
    and pr: "properties (debug_config :: real config) = [''energy'', ''forces'']"
    by (simp_all add: debug_config_def cfg_def)
  have sc: "save_config (\<lambda>c. c) (debug_config :: real config) (Some [''models'', ''debug''])
      \<lparr>fs = [[''models''] \<mapsto> Dir, [''models'', ''debug''] \<mapsto> Dir],
       trace = [LogInfo ''Create model directory'', Makedirs [''models'', ''debug'']]\<rparr> =
     (None, \<lparr>fs = [[''models''] \<mapsto> Dir, [''models'', ''debug''] \<mapsto> Dir,
             [''models'', ''debug'', ''config.yaml''] \<mapsto> File debug_config],
       trace = [LogInfo ''Create model directory'', Makedirs [''models'', ''debug''],
                WriteFile [''models'', ''debug'', ''config.yaml''] debug_config]\<rparr>)"
    by (simp add: save_config_def Let_def emit_def)
  have pd: "snd (snd (snd (prepare_data (\<lambda>x n. x * real n)
       (\<lambda>ts. \<lparr>data_len = 10, create_splits = (\<lambda>sd a b. (a, b, 10 - a - b)),
              get_atomref = (\<lambda>t. t)\<rparr>)
       (\<lambda>d b s n. d) 0 [(''energy'', Some ''energy''), (''forces'', Some ''forces'')]
       (batch_size (debug_config :: real config)) (num_train (debug_config :: real config))
       (num_val (debug_config :: real config)) (num_workers (debug_config :: real config))))) =
     [''forces'' \<mapsto> ''forces'', ''energy'' \<mapsto> ''energy'']"
    by (simp add: prepare_data_atomrefs)
  show ?thesis
    by (simp add: train_def Let_def example_ingredients_def md ow pr
        example_create_modeldir sc emit_def split_beta pd example_stats)
qed


text \<open>
  C2. In \<open>train\<close>, the configuration snapshot \<open>config.yaml\<close> in the model directory is
  written once, at the start of the run: \<open>save_config\<close> runs right after
  \<open>create_modeldir\<close>, before the data are loaded and before \<open>stats\<close>. In a run that
  reaches the training, the only file written is \<open>config.yaml\<close>, it holds the
  configuration that the run was started with, and the mean and stddev that \<open>stats\<close>
  resolves are in the configuration of the run and in what \<open>build_model\<close> receives, not
  in the file.
\<close>

theorem train_writes_config_before_stats:
  assumes "train E config w0 = (Inr (m, s, ar, props), config', w')"
  shows "\<exists>d w1. modeldir config = Some d \<and>
     create_modeldir (Some d) (overwrite config) w0 = (None, w1) \<and>
     trace w' = trace w1 @ [WriteFile (d @ [''config.yaml'']) (yaml_dump E config),
                            LogInfo ''Load data'', LogInfo ''Build model'',
                            LogInfo ''Setup training'', LogInfo ''Training''] \<and>
     filter is_write (trace w') =
       filter is_write (trace w0) @ [WriteFile (d @ [''config.yaml'']) (yaml_dump E config)] \<and>
     fs w' = (fs w1)(d @ [''config.yaml''] \<mapsto> File (yaml_dump E config)) \<and>
     m = mean config' \<and> s = stddev config'"
proof -
  from train_stages [OF assms] obtain w1 w2 where
    cm: "create_modeldir (modeldir config) (overwrite config) w0 = (None, w1)"
    and sc: "save_config (yaml_dump E) config (modeldir config) w1 = (None, w2)"
    and w': "w' = w2\<lparr>trace := trace w2 @ [LogInfo ''Load data'', LogInfo ''Build model'',
                                         LogInfo ''Setup training'', LogInfo ''Training'']\<rparr>"
    and ms: "m = mean config' \<and> s = stddev config'"
    by blast
  from save_config_written [OF sc] obtain d where
    d: "modeldir config = Some d"
    and w2: "w2 = w1\<lparr>fs := (fs w1)(d @ [''config.yaml''] \<mapsto> File (yaml_dump E config)),
                     trace := trace w1 @ [WriteFile (d @ [''config.yaml'']) (yaml_dump E config)]\<rparr>"
    by blast
  have cm': "create_modeldir (Some d) (overwrite config) w0 = (None, w1)"
    using cm d by simp
  have "filter is_write (trace (snd (create_modeldir (Some d) (overwrite config) w0))) =
        filter is_write (trace w0)"
    by (rule create_modeldir_no_write)
  then have nw: "filter is_write (trace w1) = filter is_write (trace w0)"
    by (simp add: cm')
  have tr: "trace w' = trace w1 @ [WriteFile (d @ [''config.yaml'']) (yaml_dump E config),
                            LogInfo ''Load data'', LogInfo ''Build model'',
                            LogInfo ''Setup training'', LogInfo ''Training'']"
    by (simp add: w' w2)
  have fw: "filter is_write (trace w') =
       filter is_write (trace w0) @ [WriteFile (d @ [''config.yaml'']) (yaml_dump E config)]"
    by (simp add: tr nw)
  have f: "fs w' = (fs w1)(d @ [''config.yaml''] \<mapsto> File (yaml_dump E config))"
    by (simp add: w' w2)
  show ?thesis
    using d cm' tr fw f ms by blast
qed

theorem train_writes_config_before_stats_witness:
  "filter is_write (trace (snd (snd (train example_ingredients debug_config empty_world)))) =
     [WriteFile [''models'', ''debug'', ''config.yaml''] debug_config] \<and>
   fs (snd (snd (train example_ingredients debug_config empty_world)))
     [''models'', ''debug'', ''config.yaml''] = Some (File debug_config)"
proof -
  let ?w = "snd (snd (train example_ingredients debug_config empty_world))"
  have run: "train example_ingredients debug_config empty_world =
     (Inr (Some [''energy'' \<mapsto> 5, ''forces'' \<mapsto> 5],
           Some [''energy'' \<mapsto> 7, ''forces'' \<mapsto> 7],
           [''forces'' \<mapsto> ''forces'', ''energy'' \<mapsto> ''energy''], [''energy'', ''forces'']),
      fst (snd (train example_ingredients debug_config empty_world)), ?w)"
    by (simp add: example_run)
  from train_writes_config_before_stats [OF run]
  obtain d and w1 :: "real config world" where
    d: "modeldir (debug_config :: real config) = Some d"
    and fw: "filter is_write (trace ?w) =
       filter is_write (trace (empty_world :: real config world)) @
       [WriteFile (d @ [''config.yaml'']) (yaml_dump example_ingredients debug_config)]"
    and f: "fs ?w = (fs w1)(d @ [''config.yaml''] \<mapsto>
              File (yaml_dump example_ingredients debug_config))"
    by blast
  have dd: "d = [''models'', ''debug'']"
    using d by (simp add: debug_config_def cfg_def)
  have y: "yaml_dump example_ingredients debug_config = debug_config"
    by (simp add: example_ingredients_def)
  have one: "filter is_write (trace ?w) =
     [WriteFile [''models'', ''debug'', ''config.yaml''] debug_config]"
    using fw by (simp add: dd y empty_world_def)
  have two: "fs ?w [''models'', ''debug'', ''config.yaml''] = Some (File debug_config)"
    using f by (simp add: dd y)
  show ?thesis
    using one two by (rule conjI)
qed

text \<open>
  The example run with the configuration \<open>debug_config\<close>: the file holds the
  configuration with no mean and no stddev, while the run has resolved both.
\<close>

theorem config_yaml_lacks_resolved_statistics:
  "fs (snd (snd (train example_ingredients debug_config empty_world)))
     [''models'', ''debug'', ''config.yaml''] = Some (File debug_config) \<and>
   config_stat (mean (debug_config :: real config)) ''energy'' = None \<and>
   config_stat (stddev (debug_config :: real config)) ''energy'' = None \<and>
   config_stat (mean (fst (snd (train example_ingredients debug_config empty_world))))
     ''energy'' = Some 5 \<and>
   config_stat (stddev (fst (snd (train example_ingredients debug_config empty_world))))
     ''energy'' = Some 7"
proof -
  have n: "mean (debug_config :: real config) = None" "stddev (debug_config :: real config) = None"
    by (simp_all add: debug_config_def cfg_def)
  show ?thesis
    by (simp add: example_run config_stat_def n)
qed

end
